theory Spec2Isabelle
  imports Complex_Main
begin

section \<open>Blackglass Sentinel: the decision logic of sentinel.py\<close>

text \<open>
  The three tools of \<^verbatim>\<open>sentinel.py\<close> that decide and act are embedded here:
  \<^verbatim>\<open>assess_human_cost\<close>, \<^verbatim>\<open>active_ui_interdiction\<close> and
  \<^verbatim>\<open>execute_defense_protocol\<close>. The operating system and the clock are explicit:
  an \<open>environment\<close> says what a process launch and a clock read answer, a \<open>world\<close>
  holds what the program has changed outside itself (the processes it has started), and
  a Python exception is the \<open>Inl\<close> branch of the result.
\<close>

subsection \<open>Python values\<close>

text \<open>
  A Python \<^verbatim>\<open>float\<close>: a finite value (every finite double is a rational number, and
  comparing it with the integer 500 is exact), or one of \<^verbatim>\<open>inf\<close>, \<^verbatim>\<open>-inf\<close>,
  \<^verbatim>\<open>nan\<close>.
\<close>

datatype pyfloat = Finite real | PosInf | NegInf | NaN

text \<open>Python's \<^verbatim>\<open>x > c\<close>, \<^verbatim>\<open>x <= c\<close> and \<^verbatim>\<open>x < c\<close> for a float \<open>x\<close> and a finite
  number \<open>c\<close>: every comparison with \<^verbatim>\<open>nan\<close> is false.\<close>

definition float_gt :: "pyfloat \<Rightarrow> real \<Rightarrow> bool" where
  "float_gt x c = (case x of Finite r \<Rightarrow> c < r | PosInf \<Rightarrow> True | NegInf \<Rightarrow> False | NaN \<Rightarrow> False)"

definition float_le :: "pyfloat \<Rightarrow> real \<Rightarrow> bool" where
  "float_le x c = (case x of Finite r \<Rightarrow> r \<le> c | PosInf \<Rightarrow> False | NegInf \<Rightarrow> True | NaN \<Rightarrow> False)"

definition float_lt :: "pyfloat \<Rightarrow> real \<Rightarrow> bool" where
  "float_lt x c = (case x of Finite r \<Rightarrow> r < c | PosInf \<Rightarrow> False | NegInf \<Rightarrow> True | NaN \<Rightarrow> False)"

text \<open>The exception a failed process launch raises, with the text of \<^verbatim>\<open>str(e)\<close>.\<close>

datatype py_error = OSError string

subsection \<open>The operating system\<close>

text \<open>
  \<open>launch_error env cmd\<close> is \<open>None\<close> when the operating system starts the program
  \<open>cmd\<close>, and \<open>Some m\<close> when the launch raises an \<^verbatim>\<open>OSError\<close> whose text is \<open>m\<close>
  (the executable is missing, for instance). \<open>denver_hour\<close> is the hour of the clock in
  the America/Denver time zone.
\<close>

record environment =
  launch_error :: "string list \<Rightarrow> string option"
  denver_hour :: nat

record world =
  spawned :: "string list list"

text \<open>
  \<^verbatim>\<open>subprocess.Popen(cmd)\<close> starts the program or raises. \<^verbatim>\<open>subprocess.run(cmd)\<close>
  is a \<^verbatim>\<open>Popen\<close> followed by a wait; without \<^verbatim>\<open>check=True\<close> it ignores the exit
  status, so it raises exactly when the launch does.
\<close>

definition subprocess_Popen :: "environment \<Rightarrow> world \<Rightarrow> string list \<Rightarrow> (py_error + unit) \<times> world" where
  "subprocess_Popen env w cmd =
     (case launch_error env cmd of
        Some m \<Rightarrow> (Inl (OSError m), w)
      | None \<Rightarrow> (Inr (), w\<lparr>spawned := spawned w @ [cmd]\<rparr>))"

definition subprocess_run :: "environment \<Rightarrow> world \<Rightarrow> string list \<Rightarrow> (py_error + unit) \<times> world" where
  "subprocess_run env w cmd = subprocess_Popen env w cmd"

subsection \<open>assess_human_cost\<close>

definition assess_human_cost :: "environment \<Rightarrow> string" where
  "assess_human_cost env =
     (let current_hour = denver_hour env in
      if 23 \<le> current_hour \<or> current_hour < 7 then ''FATIGUE_RISK'' else ''AVAILABLE'')"

subsection \<open>active_ui_interdiction\<close>

definition CLOSE_APPS_TEXT :: string where
  "CLOSE_APPS_TEXT =
     ''INTERDICTION SUCCESS: Stress-inducing applications terminated. Sensory load reduced.''"

definition LOCK_OK_TEXT :: string where
  "LOCK_OK_TEXT = ''INTERDICTION SUCCESS: Workstation locked. Rest protocol enforced.''"

definition LOCK_FAILED_PREFIX :: string where
  "LOCK_FAILED_PREFIX = ''INTERDICTION FAILED: Could not lock workstation. Error: ''"

definition NOTIFY_OK_TEXT :: string where
  "NOTIFY_OK_TEXT = ''INTERDICTION SUCCESS: Fatigue notification delivered to responder UI.''"

definition UNKNOWN_PREFIX :: string where
  "UNKNOWN_PREFIX = ''UNKNOWN INTERDICTION TYPE: ''"

definition lock_command :: "string list" where
  "lock_command = [''rundll32.exe'', ''user32.dll,LockWorkStation'']"

definition notify_msg :: string where
  "notify_msg = ''FATIGUE BREACH DETECTED. SENTINEL IS EXECUTING MERCY PROTOCOL. GO TO SLEEP.''"

definition ps_cmd :: string where
  "ps_cmd =
     ''Add-Type -AssemblyName PresentationFramework; [System.Windows.MessageBox]::Show(''
     @ [CHR 0x27] @ notify_msg @ [CHR 0x27] @ '', '' @ [CHR 0x27] @ ''Blackglass Sentinel''
     @ [CHR 0x27] @ '')''"

definition notify_command :: "string list" where
  "notify_command = [''powershell'', ''-Command'', ps_cmd]"

text \<open>
  The lock branch catches the exception of its launch and returns a failure text; the
  notification branch has no handler, so the exception of its launch leaves the function.
\<close>

definition active_ui_interdiction :: "environment \<Rightarrow> world \<Rightarrow> string \<Rightarrow> (py_error + string) \<times> world" where
  "active_ui_interdiction env w interdiction_type =
     (if interdiction_type = ''CLOSE_STRESS_APPS'' then (Inr CLOSE_APPS_TEXT, w)
      else if interdiction_type = ''LOCK_WORKSTATION'' then
        (case subprocess_run env w lock_command of
           (Inr _, w') \<Rightarrow> (Inr LOCK_OK_TEXT, w')
         | (Inl (OSError e), w') \<Rightarrow> (Inr (LOCK_FAILED_PREFIX @ e), w'))
      else if interdiction_type = ''NOTIFY_RESPONDER'' then
        (case subprocess_Popen env w notify_command of
           (Inl e, w') \<Rightarrow> (Inl e, w')
         | (Inr _, w') \<Rightarrow> (Inr NOTIFY_OK_TEXT, w'))
      else (Inr (UNKNOWN_PREFIX @ interdiction_type), w))"

subsection \<open>execute_defense_protocol\<close>

definition MERCY_PREFIX :: string where
  "MERCY_PREFIX =
     ''MERCY PROTOCOL ACTIVATED: Latency breach during high fatigue risk. Auto-Rollback triggered. DO NOT PAGE ENGINEERS. ''"

definition PAGE_TEXT :: string where
  "PAGE_TEXT =
     ''PAGING PROTOCOL: Latency breach detected. Engineering responders are AVAILABLE. Paging now.''"

definition WATCH_TEXT :: string where
  "WATCH_TEXT =
     ''WATCH PROTOCOL: System status within acceptable deviation. Monitoring entropy vectors.''"

text \<open>
  The inner \<^verbatim>\<open>if\<close>/\<^verbatim>\<open>elif\<close> has no \<^verbatim>\<open>else\<close>: a status that is neither of the two
  strings falls through to the final \<^verbatim>\<open>return\<close>, as a latency that is not above 500 does.
\<close>

definition execute_defense_protocol ::
    "environment \<Rightarrow> world \<Rightarrow> pyfloat \<Rightarrow> string \<Rightarrow> (py_error + string) \<times> world" where
  "execute_defense_protocol env w latency_ms human_status =
     (if float_gt latency_ms 500 then
        (if human_status = ''FATIGUE_RISK'' then
           (case active_ui_interdiction env w ''NOTIFY_RESPONDER'' of
              (Inl e, w') \<Rightarrow> (Inl e, w')
            | (Inr interdiction_result, w') \<Rightarrow> (Inr (MERCY_PREFIX @ interdiction_result), w'))
         else if human_status = ''AVAILABLE'' then (Inr PAGE_TEXT, w)
         else (Inr WATCH_TEXT, w))
      else (Inr WATCH_TEXT, w))"

subsection \<open>Reading the protocol off the output\<close>

text \<open>
  The function returns a status line, and the protocol is the label the line starts with.
  A raised exception carries no protocol.
\<close>

datatype protocol = WATCH | PAGE | MERCY

definition starts_with :: "string \<Rightarrow> string \<Rightarrow> bool" where
  "starts_with p s = (take (length p) s = p)"

definition protocol_label :: "string \<Rightarrow> protocol option" where
  "protocol_label s =
     (if starts_with ''MERCY PROTOCOL ACTIVATED:'' s then Some MERCY
      else if starts_with ''PAGING PROTOCOL:'' s then Some PAGE
      else if starts_with ''WATCH PROTOCOL:'' s then Some WATCH
      else None)"

definition selected_protocol :: "environment \<Rightarrow> world \<Rightarrow> pyfloat \<Rightarrow> string \<Rightarrow> protocol option" where
  "selected_protocol env w latency_ms human_status =
     (case fst (execute_defense_protocol env w latency_ms human_status) of
        Inl e \<Rightarrow> None
      | Inr s \<Rightarrow> protocol_label s)"

subsection \<open>Concrete environments\<close>

text \<open>A machine on which every program starts, at noon; a machine on which no program
  can be started, at two in the morning; and a world in which nothing has been started.\<close>

definition healthy_env :: environment where
  "healthy_env = \<lparr>launch_error = (\<lambda>cmd. None), denver_hour = 12\<rparr>"

definition ENOENT_TEXT :: string where
  "ENOENT_TEXT = ''[Errno 2] No such file or directory''"

definition bare_env :: environment where
  "bare_env = \<lparr>launch_error = (\<lambda>cmd. Some ENOENT_TEXT), denver_hour = 2\<rparr>"

definition idle_world :: world where
  "idle_world = \<lparr>spawned = []\<rparr>"

section \<open>Properties\<close>

subsection \<open>Labels of the three status lines\<close>

lemma label_watch: "protocol_label WATCH_TEXT = Some WATCH"
  by (simp add: protocol_label_def starts_with_def WATCH_TEXT_def)

lemma label_page: "protocol_label PAGE_TEXT = Some PAGE"
  by (simp add: protocol_label_def starts_with_def PAGE_TEXT_def)

lemma label_mercy: "protocol_label (MERCY_PREFIX @ r) = Some MERCY"
  by (simp add: protocol_label_def starts_with_def MERCY_PREFIX_def)

subsection \<open>The dispatcher on a notification\<close>

lemma notify_launched:
  "launch_error env notify_command = None \<Longrightarrow>
   active_ui_interdiction env w ''NOTIFY_RESPONDER''
     = (Inr NOTIFY_OK_TEXT, w\<lparr>spawned := spawned w @ [notify_command]\<rparr>)"
  by (simp add: active_ui_interdiction_def subprocess_Popen_def)

lemma notify_raises:
  "launch_error env notify_command = Some m \<Longrightarrow>
   active_ui_interdiction env w ''NOTIFY_RESPONDER'' = (Inl (OSError m), w)"
  by (simp add: active_ui_interdiction_def subprocess_Popen_def)

subsection \<open>The branches of execute_defense_protocol\<close>

lemma exec_not_above:
  "\<not> float_gt latency_ms 500 \<Longrightarrow>
   execute_defense_protocol env w latency_ms human_status = (Inr WATCH_TEXT, w)"
  by (simp add: execute_defense_protocol_def)

lemma exec_page:
  "float_gt latency_ms 500 \<Longrightarrow>
   execute_defense_protocol env w latency_ms ''AVAILABLE'' = (Inr PAGE_TEXT, w)"
  by (simp add: execute_defense_protocol_def)

lemma exec_mercy_launched:
  "float_gt latency_ms 500 \<Longrightarrow> launch_error env notify_command = None \<Longrightarrow>
   execute_defense_protocol env w latency_ms ''FATIGUE_RISK''
     = (Inr (MERCY_PREFIX @ NOTIFY_OK_TEXT), w\<lparr>spawned := spawned w @ [notify_command]\<rparr>)"
  by (simp add: execute_defense_protocol_def notify_launched)

lemma exec_mercy_raises:
  "float_gt latency_ms 500 \<Longrightarrow> launch_error env notify_command = Some m \<Longrightarrow>
   execute_defense_protocol env w latency_ms ''FATIGUE_RISK'' = (Inl (OSError m), w)"
  by (simp add: execute_defense_protocol_def notify_raises)

lemma exec_other_status:
  "human_status \<noteq> ''FATIGUE_RISK'' \<Longrightarrow> human_status \<noteq> ''AVAILABLE'' \<Longrightarrow>
   execute_defense_protocol env w latency_ms human_status = (Inr WATCH_TEXT, w)"
  by (simp add: execute_defense_protocol_def)

lemma float_le_not_gt: "float_le x c \<Longrightarrow> \<not> float_gt x c"
  by (cases x) (simp_all add: float_le_def float_gt_def)

lemma selected_returned:
  "execute_defense_protocol env w latency_ms human_status = (Inr s, w') \<Longrightarrow>
   selected_protocol env w latency_ms human_status = protocol_label s"
  by (simp add: selected_protocol_def)

lemma selected_raised:
  "execute_defense_protocol env w latency_ms human_status = (Inl e, w') \<Longrightarrow>
   selected_protocol env w latency_ms human_status = None"
  by (simp add: selected_protocol_def)

lemma gt_845: "float_gt (Finite 845.2) 500"
  by (simp add: float_gt_def)

lemma healthy_launch: "launch_error healthy_env cmd = None"
  by (simp add: healthy_env_def)

lemma bare_launch: "launch_error bare_env cmd = Some ENOENT_TEXT"
  by (simp add: bare_env_def)

lemma selected_protocol_eq:
  "selected_protocol env w latency_ms human_status
     = (if float_gt latency_ms 500 then
          (if human_status = ''FATIGUE_RISK'' then
             (if launch_error env notify_command = None then Some MERCY else None)
           else if human_status = ''AVAILABLE'' then Some PAGE
           else Some WATCH)
        else Some WATCH)"
proof (cases "float_gt latency_ms 500")
  case ngt: False
  from exec_not_above [OF ngt] show ?thesis
    by (simp add: ngt selected_returned label_watch)
next
  case gt: True
  show ?thesis
  proof (cases "human_status = ''FATIGUE_RISK''")
    case st: True
    show ?thesis
    proof (cases "launch_error env notify_command")
      case None
      from exec_mercy_launched [OF gt None] show ?thesis
        by (simp add: gt st None selected_returned label_mercy)
    next
      case (Some m)
      from exec_mercy_raises [OF gt Some] show ?thesis
        by (simp add: gt st Some selected_raised)
    qed
  next
    case nf: False
    show ?thesis
    proof (cases "human_status = ''AVAILABLE''")
      case av: True
      from exec_page [OF gt] show ?thesis
        by (simp add: gt av selected_returned label_page)
    next
      case False
      with exec_other_status [OF nf] show ?thesis
        by (simp add: gt nf selected_returned label_watch)
    qed
  qed
qed

section \<open>The claims\<close>

subsection \<open>The decision policy\<close>

text \<open>
  C1 on the code. The decision is the 500 ms policy except in one case: a latency that is
  not above 500 gives WATCH, a latency above 500 with AVAILABLE gives PAGE, and a latency
  above 500 with FATIGUE_RISK gives MERCY when the notification process starts. When its
  launch raises, the exception leaves the function and no protocol is returned: at the
  failing input, 845.2 with FATIGUE_RISK on a machine where no program can be started, the
  result is the \<^verbatim>\<open>OSError\<close> and not the MERCY line.
\<close>

theorem policy_mercy_case_raises:
  "selected_protocol env w latency_ms human_status
     = (if float_gt latency_ms 500 then
          (if human_status = ''FATIGUE_RISK'' then
             (if launch_error env notify_command = None then Some MERCY else None)
           else if human_status = ''AVAILABLE'' then Some PAGE
           else Some WATCH)
        else Some WATCH)
   \<and> fst (execute_defense_protocol bare_env idle_world (Finite 845.2) ''FATIGUE_RISK'')
       = Inl (OSError ENOENT_TEXT)
   \<and> selected_protocol bare_env idle_world (Finite 845.2) ''FATIGUE_RISK'' = None"
proof -
  have "fst (execute_defense_protocol bare_env idle_world (Finite 845.2) ''FATIGUE_RISK'')
      = Inl (OSError ENOENT_TEXT)"
    using exec_mercy_raises [OF gt_845 bare_launch, of idle_world] by simp
  moreover have "selected_protocol bare_env idle_world (Finite 845.2) ''FATIGUE_RISK'' = None"
    using exec_mercy_raises [OF gt_845 bare_launch, of idle_world] by (simp add: selected_raised)
  ultimately show ?thesis
    using selected_protocol_eq [of env w latency_ms human_status] by simp
qed

text \<open>
  C4 on the code. A latency of exactly 500 resolves to WATCH for every status, with
  nothing dispatched: the threshold is exclusive on the high side. A latency of 500.0001
  with FATIGUE_RISK resolves to MERCY when the notification process starts; at the failing
  input, 500.0001 with FATIGUE_RISK on a machine where no program can be started, the
  launch raises and the function returns no protocol.
\<close>

theorem boundary_mercy_case_raises:
  "selected_protocol env w (Finite 500) human_status = Some WATCH
   \<and> execute_defense_protocol env w (Finite 500) human_status = (Inr WATCH_TEXT, w)
   \<and> selected_protocol env w (Finite 500.0001) ''FATIGUE_RISK''
       = (if launch_error env notify_command = None then Some MERCY else None)
   \<and> fst (execute_defense_protocol bare_env idle_world (Finite 500.0001) ''FATIGUE_RISK'')
       = Inl (OSError ENOENT_TEXT)
   \<and> selected_protocol bare_env idle_world (Finite 500.0001) ''FATIGUE_RISK'' = None"
proof -
  have at: "\<not> float_gt (Finite 500) 500"
    by (simp add: float_gt_def)
  have above: "float_gt (Finite 500.0001) 500"
    by (simp add: float_gt_def)
  have a: "execute_defense_protocol env w (Finite 500) human_status = (Inr WATCH_TEXT, w)"
    by (rule exec_not_above [OF at])
  have b: "selected_protocol env w (Finite 500) human_status = Some WATCH"
    using a by (simp add: selected_returned label_watch)
  have c: "selected_protocol env w (Finite 500.0001) ''FATIGUE_RISK''
      = (if launch_error env notify_command = None then Some MERCY else None)"
    using selected_protocol_eq [of env w "Finite 500.0001" "''FATIGUE_RISK''"] above by simp
  have d: "execute_defense_protocol bare_env idle_world (Finite 500.0001) ''FATIGUE_RISK''
      = (Inl (OSError ENOENT_TEXT), idle_world)"
    by (rule exec_mercy_raises [OF above bare_launch])
  have e: "selected_protocol bare_env idle_world (Finite 500.0001) ''FATIGUE_RISK'' = None"
    using d by (simp add: selected_raised)
  show ?thesis
    using a b c d e by simp
qed

text \<open>
  C10. For every latency above 500 and every status that is neither the string
  FATIGUE_RISK nor the string AVAILABLE (a lowercase or misspelled status, for instance),
  the function falls through to the final return: it gives the WATCH line, raises
  nothing and starts nothing.
\<close>

theorem unknown_status_falls_through:
  assumes "float_gt latency_ms 500"
    and "human_status \<noteq> ''FATIGUE_RISK''" and "human_status \<noteq> ''AVAILABLE''"
  shows "execute_defense_protocol env w latency_ms human_status = (Inr WATCH_TEXT, w)
       \<and> selected_protocol env w latency_ms human_status = Some WATCH"
proof -
  have "execute_defense_protocol env w latency_ms human_status = (Inr WATCH_TEXT, w)"
    using assms(2,3) by (rule exec_other_status)
  then show ?thesis
    by (simp add: selected_returned label_watch)
qed

theorem unknown_status_falls_through_witness:
  "float_gt (Finite 845.2) 500
   \<and> execute_defense_protocol bare_env idle_world (Finite 845.2) ''fatigue_risk''
       = (Inr WATCH_TEXT, idle_world)
   \<and> selected_protocol bare_env idle_world (Finite 845.2) ''fatigue_risk'' = Some WATCH"
  using unknown_status_falls_through
          [of "Finite 845.2" "''fatigue_risk''" bare_env idle_world]
  by (simp add: float_gt_def)

subsection \<open>Effects of the decision\<close>

text \<open>
  C7. Every execution that ends in the WATCH protocol and every execution that ends in the
  PAGE protocol dispatches nothing: no process has been started (the world is the one
  the function was called in), and the output is the fixed status line of the protocol,
  with no action outcome in it.
\<close>

theorem watch_page_dispatch_nothing:
  assumes "selected_protocol env w latency_ms human_status = Some WATCH
         \<or> selected_protocol env w latency_ms human_status = Some PAGE"
  shows "snd (execute_defense_protocol env w latency_ms human_status) = w
       \<and> (fst (execute_defense_protocol env w latency_ms human_status) = Inr WATCH_TEXT
          \<or> fst (execute_defense_protocol env w latency_ms human_status) = Inr PAGE_TEXT)"
proof (cases "float_gt latency_ms 500 \<and> human_status = ''FATIGUE_RISK''")
  case True
  then have gt: "float_gt latency_ms 500" and st: "human_status = ''FATIGUE_RISK''"
    by simp_all
  have "selected_protocol env w latency_ms human_status = Some MERCY
      \<or> selected_protocol env w latency_ms human_status = None"
  proof (cases "launch_error env notify_command")
    case None
    from exec_mercy_launched [OF gt None] st show ?thesis
      by (simp add: selected_returned label_mercy)
  next
    case (Some m)
    from exec_mercy_raises [OF gt Some] st show ?thesis
      by (simp add: selected_raised)
  qed
  with assms show ?thesis by auto
next
  case False
  show ?thesis
  proof (cases "float_gt latency_ms 500")
    case gt: True
    with False have nf: "human_status \<noteq> ''FATIGUE_RISK''" by simp
    show ?thesis
    proof (cases "human_status = ''AVAILABLE''")
      case True
      with exec_page [OF gt] show ?thesis by simp
    next
      case False
      with exec_other_status [OF nf] show ?thesis by simp
    qed
  next
    case ngt: False
    from exec_not_above [OF ngt] show ?thesis by simp
  qed
qed

theorem watch_page_dispatch_nothing_witness:
  "snd (execute_defense_protocol healthy_env idle_world (Finite 120) ''FATIGUE_RISK'') = idle_world
   \<and> snd (execute_defense_protocol healthy_env idle_world (Finite 845.2) ''AVAILABLE'') = idle_world"
proof -
  have w: "selected_protocol healthy_env idle_world (Finite 120) ''FATIGUE_RISK'' = Some WATCH"
    by (simp add: selected_protocol_def execute_defense_protocol_def float_gt_def label_watch)
  have p: "selected_protocol healthy_env idle_world (Finite 845.2) ''AVAILABLE'' = Some PAGE"
    by (simp add: selected_protocol_def execute_defense_protocol_def float_gt_def label_page)
  show ?thesis
    using watch_page_dispatch_nothing [of healthy_env idle_world "Finite 120" "''FATIGUE_RISK''"]
          watch_page_dispatch_nothing [of healthy_env idle_world "Finite 845.2" "''AVAILABLE''"]
          w p
    by simp
qed

text \<open>
  C3, as the code has it. Selecting a protocol leaves the outside unchanged except in the
  MERCY case: for a latency above 500 with FATIGUE_RISK the function itself dispatches
  NOTIFY_RESPONDER, which starts the notification process when the launch succeeds; for
  every other input the world is the one the function was called in.
\<close>

theorem effects_only_in_mercy:
  "snd (execute_defense_protocol env w latency_ms human_status)
     = (if float_gt latency_ms 500 \<and> human_status = ''FATIGUE_RISK''
           \<and> launch_error env notify_command = None
        then w\<lparr>spawned := spawned w @ [notify_command]\<rparr> else w)"
proof (cases "float_gt latency_ms 500")
  case ngt: False
  from exec_not_above [OF ngt] show ?thesis by (simp add: ngt)
next
  case gt: True
  show ?thesis
  proof (cases "human_status = ''FATIGUE_RISK''")
    case st: True
    show ?thesis
    proof (cases "launch_error env notify_command")
      case None
      from exec_mercy_launched [OF gt None] show ?thesis by (simp add: gt st None)
    next
      case (Some m)
      from exec_mercy_raises [OF gt Some] show ?thesis by (simp add: st Some)
    qed
  next
    case nf: False
    show ?thesis
    proof (cases "human_status = ''AVAILABLE''")
      case True
      with exec_page [OF gt] show ?thesis by simp
    next
      case False
      with exec_other_status [OF nf] show ?thesis by (simp add: nf)
    qed
  qed
qed

text \<open>
  C3 as stated fails: at the valid input 845.2 with FATIGUE_RISK, on a machine where every
  program starts, the decision has started the notification process, so the world after
  the call is not the world before it.
\<close>

theorem decision_dispatches_counterexample:
  "snd (execute_defense_protocol healthy_env idle_world (Finite 845.2) ''FATIGUE_RISK'')
     \<noteq> idle_world"
proof -
  have "snd (execute_defense_protocol healthy_env idle_world (Finite 845.2) ''FATIGUE_RISK'')
          = idle_world\<lparr>spawned := spawned idle_world @ [notify_command]\<rparr>"
    using exec_mercy_launched [OF gt_845 healthy_launch, of idle_world] by simp
  moreover have "spawned (idle_world\<lparr>spawned := spawned idle_world @ [notify_command]\<rparr>)
                  \<noteq> spawned idle_world"
    by (simp add: idle_world_def)
  ultimately show ?thesis by metis
qed

subsection \<open>Latencies that are not measurements\<close>

text \<open>
  C2, as the code has it. The function validates nothing. A latency that is negative
  (\<^verbatim>\<open>-inf\<close> included) or \<^verbatim>\<open>nan\<close> is not above 500, so it is classified as WATCH for every
  status, with nothing raised and nothing started; \<^verbatim>\<open>inf\<close> is above 500 and gives exactly
  what every finite latency above 500 gives.
\<close>

theorem invalid_latency_is_classified:
  "(float_lt latency_ms 0 \<or> latency_ms = NaN \<longrightarrow>
      execute_defense_protocol env w latency_ms human_status = (Inr WATCH_TEXT, w)
      \<and> selected_protocol env w latency_ms human_status = Some WATCH)
   \<and> float_gt PosInf 500
   \<and> (500 < r \<longrightarrow>
        execute_defense_protocol env w PosInf human_status
          = execute_defense_protocol env w (Finite r) human_status)"
proof -
  have "execute_defense_protocol env w latency_ms human_status = (Inr WATCH_TEXT, w)
      \<and> selected_protocol env w latency_ms human_status = Some WATCH"
    if bad: "float_lt latency_ms 0 \<or> latency_ms = NaN"
  proof -
    from bad have "\<not> float_gt latency_ms 500"
      by (cases latency_ms) (simp_all add: float_lt_def float_gt_def)
    then have "execute_defense_protocol env w latency_ms human_status = (Inr WATCH_TEXT, w)"
      by (rule exec_not_above)
    then show ?thesis
      by (simp add: selected_returned label_watch)
  qed
  moreover have "float_gt PosInf 500"
    by (simp add: float_gt_def)
  moreover have "execute_defense_protocol env w PosInf human_status
      = execute_defense_protocol env w (Finite r) human_status" if "500 < r"
    using that by (simp add: execute_defense_protocol_def float_gt_def)
  ultimately show ?thesis by blast
qed

theorem invalid_latency_is_classified_witness:
  "execute_defense_protocol bare_env idle_world (Finite (- 5)) ''AVAILABLE''
     = (Inr WATCH_TEXT, idle_world)
   \<and> selected_protocol bare_env idle_world NaN ''FATIGUE_RISK'' = Some WATCH
   \<and> selected_protocol bare_env idle_world NegInf ''FATIGUE_RISK'' = Some WATCH
   \<and> execute_defense_protocol bare_env idle_world PosInf ''AVAILABLE''
       = execute_defense_protocol bare_env idle_world (Finite 2000) ''AVAILABLE''
   \<and> execute_defense_protocol healthy_env idle_world PosInf ''FATIGUE_RISK''
       = execute_defense_protocol healthy_env idle_world (Finite 500.0001) ''FATIGUE_RISK''"
  using invalid_latency_is_classified
          [where latency_ms = "Finite (- 5)" and env = bare_env and w = idle_world
             and human_status = "''AVAILABLE''" and r = "2000"]
        invalid_latency_is_classified
          [where latency_ms = NaN and env = bare_env and w = idle_world
             and human_status = "''FATIGUE_RISK''" and r = "2000"]
        invalid_latency_is_classified
          [where latency_ms = NegInf and env = healthy_env and w = idle_world
             and human_status = "''FATIGUE_RISK''" and r = "500.0001"]
        invalid_latency_is_classified
          [where latency_ms = NegInf and env = bare_env and w = idle_world
             and human_status = "''FATIGUE_RISK''" and r = "2000"]
  by (simp add: float_lt_def)

text \<open>
  C2 as stated fails: at the latency -5.0 the function does not refuse. It returns the
  WATCH line, as a value and not as an exception, so a protocol is assigned.
\<close>

theorem negative_latency_counterexample:
  "execute_defense_protocol healthy_env idle_world (Finite (- 5)) ''FATIGUE_RISK''
     = (Inr WATCH_TEXT, idle_world)
   \<and> selected_protocol healthy_env idle_world (Finite (- 5)) ''FATIGUE_RISK'' = Some WATCH"
proof -
  have "\<not> float_gt (Finite (- 5)) 500"
    by (simp add: float_gt_def)
  then have "execute_defense_protocol healthy_env idle_world (Finite (- 5)) ''FATIGUE_RISK''
      = (Inr WATCH_TEXT, idle_world)"
    by (rule exec_not_above)
  then show ?thesis
    by (simp add: selected_returned label_watch)
qed

subsection \<open>The rest window\<close>

text \<open>
  C8. For every hour of the Denver clock the oracle answers exactly one of AVAILABLE and
  FATIGUE_RISK, and it answers FATIGUE_RISK precisely when the hour is at least 23 or
  below 7, the half-open window from 23:00 to 07:00 across midnight: 23 is FATIGUE_RISK
  and 7 is AVAILABLE.
\<close>

theorem rest_window:
  "(assess_human_cost env = ''FATIGUE_RISK'' \<or> assess_human_cost env = ''AVAILABLE'')
   \<and> ''FATIGUE_RISK'' \<noteq> ''AVAILABLE''
   \<and> (assess_human_cost env = ''FATIGUE_RISK'') = (23 \<le> denver_hour env \<or> denver_hour env < 7)
   \<and> (assess_human_cost env = ''AVAILABLE'') = (7 \<le> denver_hour env \<and> denver_hour env < 23)
   \<and> assess_human_cost (env\<lparr>denver_hour := 23\<rparr>) = ''FATIGUE_RISK''
   \<and> assess_human_cost (env\<lparr>denver_hour := 6\<rparr>) = ''FATIGUE_RISK''
   \<and> assess_human_cost (env\<lparr>denver_hour := 7\<rparr>) = ''AVAILABLE''
   \<and> assess_human_cost (env\<lparr>denver_hour := 22\<rparr>) = ''AVAILABLE''"
  by (auto simp add: assess_human_cost_def Let_def)

subsection \<open>A notification that cannot be launched\<close>

text \<open>
  C9 at its failing input. On a machine where no program can be started, the dispatcher
  raises on NOTIFY_RESPONDER: the \<^verbatim>\<open>OSError\<close> of the launch leaves the function, and no
  result is returned. On the same machine the LOCK_WORKSTATION branch, which has a
  handler, returns its failure text.
\<close>

theorem notify_dispatch_raises:
  "active_ui_interdiction bare_env idle_world ''NOTIFY_RESPONDER''
     = (Inl (OSError ENOENT_TEXT), idle_world)
   \<and> active_ui_interdiction bare_env idle_world ''LOCK_WORKSTATION''
     = (Inr (LOCK_FAILED_PREFIX @ ENOENT_TEXT), idle_world)"
  by (simp add: active_ui_interdiction_def subprocess_run_def subprocess_Popen_def bare_launch)

text \<open>
  C5 at its failing input. A MERCY execution whose notification cannot be launched
  returns no status line at all: the exception of the dispatcher leaves
  \<^verbatim>\<open>execute_defense_protocol\<close>, so there is no record that lists NOTIFY_RESPONDER.
\<close>

theorem mercy_failed_dispatch_no_record:
  "execute_defense_protocol bare_env idle_world (Finite 845.2) ''FATIGUE_RISK''
     = (Inl (OSError ENOENT_TEXT), idle_world)"
  by (rule exec_mercy_raises [OF gt_845 bare_launch])

text \<open>
  C6 at its failing input. When the notification of a MERCY execution cannot be launched,
  the output carries no protocol: the failure is not recorded beside MERCY, it replaces
  the MERCY line.
\<close>

theorem mercy_failed_dispatch_no_protocol:
  "selected_protocol bare_env idle_world (Finite 845.2) ''FATIGUE_RISK'' = None
   \<and> selected_protocol bare_env idle_world (Finite 845.2) ''FATIGUE_RISK'' \<noteq> Some MERCY"
  using exec_mercy_raises [OF gt_845 bare_launch, of idle_world]
  by (simp add: selected_raised)

end
